theory Spec2Isabelle
  imports Main
begin

section \<open>JavaScript values passed to the command\<close>

text \<open>
  The command \<open>component(prevSubject, component, ...rest)\<close> receives its trailing
  arguments as \<open>rest: any[]\<close>. The values that can stand there are modelled by one
  datatype. Numbers are integers here (the only number the code produces is the
  configured timeout); a pattern carries its source and its flags; an object is the
  list of its own properties.
\<close>

datatype jsval =
    JUndefined
  | JNull
  | JBool bool
  | JNum int
  | JStr string
  | JRegExp string string
  | JObj "(string \<times> jsval) list"

text \<open>JavaScript truthiness, as used by \<open>&&\<close>, \<open>||\<close>, \<open>!\<close> and \<open>if\<close>.\<close>

fun truthy :: "jsval \<Rightarrow> bool" where
  "truthy JUndefined = False"
| "truthy JNull = False"
| "truthy (JBool b) = b"
| "truthy (JNum n) = (n \<noteq> 0)"
| "truthy (JStr s) = (s \<noteq> [])"
| "truthy (JRegExp s f) = True"
| "truthy (JObj fs) = True"

text \<open>
  Reading a property of a value that is neither \<open>undefined\<close> nor \<open>null\<close>: an object
  yields the stored value, or \<open>undefined\<close> for a property it does not have; the only
  properties the code reads are \<open>all\<close>, \<open>log\<close> and \<open>timeout\<close>, which no primitive
  value has.
\<close>

fun getProp :: "jsval \<Rightarrow> string \<Rightarrow> jsval" where
  "getProp (JObj fs) k = (case map_of fs k of Some v \<Rightarrow> v | None \<Rightarrow> JUndefined)"
| "getProp v k = JUndefined"

text \<open>\<open>rest[i]\<close>: an index past the end of the array reads \<open>undefined\<close>.\<close>

definition nth_arg :: "jsval list \<Rightarrow> nat \<Rightarrow> jsval" where
  "nth_arg rest i = (if i < length rest then rest ! i else JUndefined)"

text \<open>
  Modelled from the spec: \<open>isText\<close> is imported from \<open>../interfaces\<close>, which is not among
  the sources. The spec (section 4.1): a text criterion is recognized as text-like
  (string or pattern) by type inspection.
\<close>

fun isText :: "jsval \<Rightarrow> bool" where
  "isText (JStr s) = True"
| "isText (JRegExp s f) = True"
| "isText v = False"

section \<open>Descriptors\<close>

type_synonym node = nat

text \<open>
  The \<open>Component\<close> interface (with the optional members of \<open>ComponentWithText\<close>), as
  the command reads it: \<open>query\<close>, \<open>name\<close>, \<open>textQuery\<close>, \<open>traverse\<close> and
  \<open>traverseViaText\<close>. A traversal callback takes the collection of one element and
  returns a collection.
\<close>

record Component =
  query :: string
  name :: string
  textQuery :: "string option"
  traverse :: "(node \<Rightarrow> node list) option"
  traverseViaText :: "(node \<Rightarrow> node list) option"

text \<open>
  Modelled from the spec: the value passed as \<open>component\<close> is inspected by \<open>isComponent\<close>,
  \<open>isReact\<close> and \<open>isComponentWithText\<close> of \<open>../interfaces\<close>, which is not among the
  sources. The spec (sections 6, 7 and 9) distinguishes three kinds of value: a valid
  descriptor, a UI-framework component, and anything else; and a descriptor has text
  capability when its text query is present (section 3). The string of the last two
  is what \<open>${component}\<close> prints.
\<close>

datatype component_arg =
    Spec (spec_of: Component)
  | React string
  | Malformed string

text \<open>
  Modelled from the spec: \<open>isComponent\<close>, \<open>isReact\<close> and \<open>isComponentWithText\<close> (all
  three missing with \<open>../interfaces\<close>) tell the kinds apart; \<open>render\<close> is the string
  conversion of the template literals in the error messages.
\<close>

fun isComponent :: "component_arg \<Rightarrow> bool" where
  "isComponent (Spec c) = True"
| "isComponent v = False"

fun isReact :: "component_arg \<Rightarrow> bool" where
  "isReact (React s) = True"
| "isReact v = False"

fun isComponentWithText :: "component_arg \<Rightarrow> bool" where
  "isComponentWithText (Spec c) = (textQuery c \<noteq> None)"
| "isComponentWithText v = False"

fun render :: "component_arg \<Rightarrow> string" where
  "render (Spec c) = ''[object Object]''"
| "render (React s) = s"
| "render (Malformed s) = s"

section \<open>The page and the host runner\<close>

text \<open>
  What one attempt reads from its surroundings: the runner's configuration, the
  document body, the ambient scope of an enclosing \<open>within\<close>, jQuery's \<open>find\<close> and
  \<open>contains\<close>, and the two text helpers of \<open>./internals/text\<close> (\<open>findAllByText\<close>,
  \<open>orderByInnerText\<close>), which are not among the sources and are taken as given.
\<close>

record env =
  defaultCommandTimeout :: int
  body :: "node list"
  withinSubject :: "node list option"
  jq_find :: "node list \<Rightarrow> string \<Rightarrow> node list"
  contains :: "node \<Rightarrow> node \<Rightarrow> bool"
  findAllByText :: "node list \<Rightarrow> string \<Rightarrow> jsval \<Rightarrow> node list"
  orderByInnerText :: "node list \<Rightarrow> node list"

section \<open>Options and text\<close>

text \<open>
  \<^verbatim>\<open>
  function getOptions(rest: any[]) {
    switch (rest.length) {
      case 1:
        if (rest[0] && !isText(rest[0])) return rest[0];
        break;
      default:
        return rest[1];
    }
  }
  \<close>
\<close>

definition getOptions :: "jsval list \<Rightarrow> jsval" where
  "getOptions rest =
     (if length rest = 1
      then (if truthy (nth_arg rest 0) \<and> \<not> isText (nth_arg rest 0) then nth_arg rest 0
            else JUndefined)
      else nth_arg rest 1)"

text \<open>\<^verbatim>\<open>const getText = (rest: any[]) => (isText(rest[0]) ? rest[0] : undefined);\<close>\<close>

definition getText :: "jsval list \<Rightarrow> jsval" where
  "getText rest = (if isText (nth_arg rest 0) then nth_arg rest 0 else JUndefined)"

text \<open>
  The defaults are built inside the function, from the configuration read at the call.
  \<^verbatim>\<open>
  function normalizeOptions(rest: any[]): ComponentOptions {
    const defl = { all: false, log: true,
                   timeout: Cypress.config().defaultCommandTimeout };
    return getOptions(rest) || defl;
  }
  \<close>
\<close>

definition defl :: "env \<Rightarrow> jsval" where
  "defl e = JObj [(''all'', JBool False), (''log'', JBool True),
                  (''timeout'', JNum (defaultCommandTimeout e))]"

definition normalizeOptions :: "env \<Rightarrow> jsval list \<Rightarrow> jsval" where
  "normalizeOptions e rest = (if truthy (getOptions rest) then getOptions rest else defl e)"

section \<open>Collections\<close>

text \<open>
  A jQuery collection is the list of its elements, in the order the collection holds
  them.
  \<^verbatim>\<open>
  function mapAll($collection: JQuery, callback: ($el: JQuery) => JQuery) {
    return $collection.map(function (this: HTMLElement) {
      const $element = Cypress.$(this);
      return callback($element).get()[0];
    });
  }
  \<close>
  jQuery's \<open>map\<close> leaves out an element whose callback returns \<open>undefined\<close>, which is
  what \<open>get()[0]\<close> is for an empty collection.
\<close>

definition mapAll :: "node list \<Rightarrow> (node \<Rightarrow> node list) \<Rightarrow> node list" where
  "mapAll collection callback =
     concat (map (\<lambda>x. case callback x of [] \<Rightarrow> [] | y # ys \<Rightarrow> [y]) collection)"

text \<open>
  Modelled from the spec: \<open>getFirstDeepestElement\<close> is imported from
  \<open>./internals/driver\<close>, which is not among the sources. The spec (sections 4.3 and 8):
  the result is a single element, the candidate with no other candidate nested inside
  it; of candidates each containing the next, the innermost. Which of several disjoint
  candidates is taken is left open there; the model takes the first, as the name says.
  The first argument is the containment test of the page.
\<close>

fun getFirstDeepestElement :: "(node \<Rightarrow> node \<Rightarrow> bool) \<Rightarrow> node list \<Rightarrow> node list" where
  "getFirstDeepestElement c [] = []"
| "getFirstDeepestElement c [x] = [x]"
| "getFirstDeepestElement c (x # y # ys) =
     (if c x y then getFirstDeepestElement c (y # ys) else [x])"

section \<open>The command\<close>

text \<open>
  The diagnostic tag of a yielded collection. Its second parameter has the type
  \<open>Text | undefined\<close>.
  \<^verbatim>\<open>
  function describePseudoSelector(component: Component, text?: Text) {
    if (!text) return component.query;
    else if (text instanceof RegExp)
      return `${component.query}:component-text(${text})`;
    else return `${component.query}:component-text('${text}')`;
  }
  \<close>
\<close>

fun describePseudoSelector :: "Component \<Rightarrow> jsval \<Rightarrow> string" where
  "describePseudoSelector c (JRegExp s f) =
     query c @ '':component-text(/'' @ s @ ''/'' @ f @ '')''"
| "describePseudoSelector c (JStr s) =
     (if s = [] then query c
      else query c @ '':component-text('' @ [CHR 0x27] @ s @ [CHR 0x27] @ '')'')"
| "describePseudoSelector c v = query c"

text \<open>The three errors the command throws, and their messages.\<close>

datatype error =
    CannotUseReact string
  | InvalidSpecification string
  | NotComponentWithText string

fun error_message :: "error \<Rightarrow> string" where
  "error_message (CannotUseReact s) =
     ''react-gears-cypress: cannot use a React component as a specification: '' @ s"
| "error_message (InvalidSpecification s) =
     ''react-gears-cypress: invalid component specification '' @ s"
| "error_message (NotComponentWithText n) =
     ''react-gears-cypress: trying to find by text, but '' @ n @
     '' does not implement ComponentWithText''"

text \<open>
  The entry of the command log (\<open>name\<close>, \<open>message\<close>, \<open>type\<close>) with the console
  properties it shows (\<open>Component\<close>, \<open>Text\<close>, \<open>Options\<close>, \<open>Applies To\<close>,
  \<open>Yielded\<close>, \<open>Elements\<close>) and its \<open>$el\<close>. The last three are set when the
  command passes. \<open>Cypress.dom.getElements\<close> is taken to give the elements of the
  collection.
\<close>

record logEntry =
  log_name :: string
  log_message :: "jsval list"
  log_type :: string
  log_Component :: string
  log_Text :: "jsval option"
  log_Options :: "jsval option"
  log_AppliesTo :: "node list option"
  log_Yielded :: "node list option"
  log_Elements :: "nat option"
  log_el :: "node list option"

text \<open>
  What the closures \<open>setEl\<close>, \<open>getValue\<close> and \<open>resolveValue\<close> capture once the
  arguments have been checked.
\<close>

record command =
  cmd_prevSubject :: "node list option"
  cmd_component :: Component
  cmd_options :: jsval
  cmd_text :: jsval
  cmd_logEntry :: "logEntry option"

text \<open>\<open>prevSubject || withinSubject\<close>. A collection is an object, so it is truthy even
  when it is empty.\<close>

definition appliesTo :: "env \<Rightarrow> node list option \<Rightarrow> node list option" where
  "appliesTo e prevSubject =
     (case prevSubject of Some s \<Rightarrow> Some s | None \<Rightarrow> withinSubject e)"

text \<open>
  The synchronous part of the command, up to the creation of the log entry (lines
  111 to 156 of the command's file): the options and the text are taken from \<open>rest\<close>,
  the descriptor is checked, and the entry is logged unless \<open>options.log\<close> is
  \<open>false\<close>. A thrown error is the left summand.
\<close>

definition component ::
  "env \<Rightarrow> node list option \<Rightarrow> component_arg \<Rightarrow> jsval list \<Rightarrow> error + command" where
  "component e prevSubject c rest =
     (let options = normalizeOptions e rest;
          text = getText rest
      in if \<not> isComponent c
         then Inl (if isReact c then CannotUseReact (render c)
                   else InvalidSpecification (render c))
         else if truthy text \<and> \<not> isComponentWithText c
         then Inl (NotComponentWithText (name (spec_of c)))
         else Inr \<lparr>
           cmd_prevSubject = prevSubject,
           cmd_component = spec_of c,
           cmd_options = options,
           cmd_text = text,
           cmd_logEntry =
             (if getProp options ''log'' \<noteq> JBool False
              then (let loggableOptions = getOptions rest
                    in Some \<lparr>
                      log_name = ''component'',
                      log_message =
                        [JStr (name (spec_of c))] @
                        (if truthy text then [text] else []) @
                        (if truthy loggableOptions then [loggableOptions] else []),
                      log_type =
                        (if appliesTo e prevSubject \<noteq> None then ''child'' else ''parent''),
                      log_Component = name (spec_of c),
                      log_Text = (if truthy text then Some text else None),
                      log_Options =
                        (if truthy loggableOptions then Some loggableOptions else None),
                      log_AppliesTo = appliesTo e prevSubject,
                      log_Yielded = None,
                      log_Elements = None,
                      log_el = None \<rparr>)
              else None) \<rparr>)"

text \<open>
  \<^verbatim>\<open>
  const setEl = ($el: JQuery | undefined) => {
    if (logEntry) {
      consoleProps.Yielded = $el && Cypress.dom.getElements($el);
      consoleProps.Elements = $el != null ? $el.length : undefined;
      logEntry.set({ $el });
    }
    return $el;
  };
  \<close>
  It is called with the collection that passed, and the model returns the entry as
  updated.
\<close>

definition setEl :: "command \<Rightarrow> node list \<Rightarrow> logEntry option" where
  "setEl cmd el =
     (case cmd_logEntry cmd of
        None \<Rightarrow> None
      | Some l \<Rightarrow>
          Some (l\<lparr> log_Yielded := Some el, log_Elements := Some (length el),
                  log_el := Some el \<rparr>))"

subsection \<open>One attempt\<close>

text \<open>
  \<^verbatim>\<open>const $subject = prevSubject || cy.state('withinSubject') || cy.$$('body');\<close>
\<close>

definition subject :: "env \<Rightarrow> node list option \<Rightarrow> node list" where
  "subject e prevSubject =
     (case prevSubject of
        Some s \<Rightarrow> s
      | None \<Rightarrow> (case withinSubject e of Some s \<Rightarrow> s | None \<Rightarrow> body e))"

text \<open>
  The conditions under which each path replaces the candidates by their first deepest
  element:
  \<^verbatim>\<open>if ($el && $el.length && !options.all)\<close> on the text path and
  \<^verbatim>\<open>if ($el.length > 1 && !options.all)\<close> on the structural path.
  A collection is truthy, and its length is truthy when it is not zero.
\<close>

definition reducesByText :: "jsval \<Rightarrow> node list \<Rightarrow> bool" where
  "reducesByText options el \<longleftrightarrow> el \<noteq> [] \<and> \<not> truthy (getProp options ''all'')"

definition reducesByQuery :: "jsval \<Rightarrow> node list \<Rightarrow> bool" where
  "reducesByQuery options el \<longleftrightarrow> 1 < length el \<and> \<not> truthy (getProp options ''all'')"

text \<open>The candidates of each path after that step, before any traversal.\<close>

definition reducedByText :: "env \<Rightarrow> jsval \<Rightarrow> node list \<Rightarrow> node list" where
  "reducedByText e options el =
     (if reducesByText options el
      then getFirstDeepestElement (contains e) (orderByInnerText e el)
      else el)"

definition reducedByQuery :: "env \<Rightarrow> jsval \<Rightarrow> node list \<Rightarrow> node list" where
  "reducedByQuery e options el =
     (if reducesByQuery options el then getFirstDeepestElement (contains e) el else el)"

text \<open>
  \<^verbatim>\<open>if ($el.length && component.traverse) $el = mapAll($el, component.traverse);\<close>
  and the same with \<open>traverseViaText\<close> on the text path.
\<close>

definition traversed :: "(node \<Rightarrow> node list) option \<Rightarrow> node list \<Rightarrow> node list" where
  "traversed callback el =
     (case callback of
        None \<Rightarrow> el
      | Some f \<Rightarrow> (if el \<noteq> [] then mapAll el f else el))"

text \<open>
  \<^verbatim>\<open>
  const getValue = () => {
    const $subject = prevSubject || cy.state('withinSubject') || cy.$$('body');
    let $el: JQuery;
    if (text && isComponentWithText(component)) {
      $el = findAllByText($subject, component.textQuery, text);
      if ($el && $el.length && !options.all)
        $el = getFirstDeepestElement(orderByInnerText($el));
      if ($el.length && component.traverseViaText)
        $el = mapAll($el, component.traverseViaText);
    } else {
      $el = $subject.find(component.query);
      if ($el.length > 1 && !options.all) $el = getFirstDeepestElement($el);
      if ($el.length && component.traverse)
        $el = mapAll($el, component.traverse);
    }
    if (!$el.selector) $el.selector = describePseudoSelector(component, text);
    return $el;
  };
  \<close>
  The page is read when the attempt runs, so the model takes it as an argument. The
  selector tag is a label on the collection and leaves its elements as they are; the
  model returns the elements.
\<close>

definition viaText :: "command \<Rightarrow> bool" where
  "viaText cmd \<longleftrightarrow> truthy (cmd_text cmd) \<and> textQuery (cmd_component cmd) \<noteq> None"

text \<open>The body of \<open>getValue\<close> below its first line, for a given \<open>$subject\<close>.\<close>

definition locate :: "env \<Rightarrow> node list \<Rightarrow> command \<Rightarrow> node list" where
  "locate e s cmd =
     (let c = cmd_component cmd;
          options = cmd_options cmd
      in case textQuery c of
           Some q \<Rightarrow>
             (if truthy (cmd_text cmd)
              then traversed (traverseViaText c)
                     (reducedByText e options (findAllByText e s q (cmd_text cmd)))
              else traversed (traverse c)
                     (reducedByQuery e options (jq_find e s (query c))))
         | None \<Rightarrow>
             traversed (traverse c) (reducedByQuery e options (jq_find e s (query c))))"

definition getValue :: "env \<Rightarrow> command \<Rightarrow> node list" where
  "getValue e cmd = locate e (subject e (cmd_prevSubject cmd)) cmd"

subsection \<open>The retry loop\<close>

text \<open>
  \<open>cy.verifyUpcomingAssertions\<close> belongs to the host runner: given the collection and
  the options it runs the assertions chained to the command and then calls \<open>onPass\<close>,
  or calls \<open>onRetry\<close> after a wait, or throws once its time is used up. It is a
  parameter of the model, and what it sees of the page is the state of the attempt.
\<close>

datatype verdict = Passes | Retries | TimesOut

datatype outcome =
    Yields "node list" "logEntry option"
  | Fails "node list"

text \<open>
  \<^verbatim>\<open>
  const resolveValue = () => {
    return Cypress.Promise.try(getValue).then(($el) => {
      if (!Cypress.dom.isJquery($el)) { $el = Cypress.$($el); }
      return cy.verifyUpcomingAssertions($el, options, {
        onRetry: resolveValue,
        onPass: () => setEl($el),
      });
    });
  };
  \<close>
  The list holds the state of the page at each attempt, the first at the head. The loop
  has no bound of its own: the result is \<open>None\<close> when the runner still asks for a retry
  at the last state listed.
\<close>

fun resolveValue ::
  "(env \<Rightarrow> node list \<Rightarrow> jsval \<Rightarrow> verdict) \<Rightarrow> command \<Rightarrow> env list \<Rightarrow> outcome option" where
  "resolveValue verify cmd [] = None"
| "resolveValue verify cmd (e # es) =
     (let el = getValue e cmd
      in case verify e el (cmd_options cmd) of
           Passes \<Rightarrow> Some (Yields el (setEl cmd el))
         | Retries \<Rightarrow> resolveValue verify cmd es
         | TimesOut \<Rightarrow> Some (Fails el))"

text \<open>
  The whole command: the first attempt runs in the call itself, on the page as it is
  then; \<open>es\<close> are the states of the page at the later attempts.
\<close>

definition invoke ::
  "(env \<Rightarrow> node list \<Rightarrow> jsval \<Rightarrow> verdict) \<Rightarrow> env \<Rightarrow> env list \<Rightarrow> node list option \<Rightarrow>
   component_arg \<Rightarrow> jsval list \<Rightarrow> error + outcome option" where
  "invoke verify e es prevSubject c rest =
     (case component e prevSubject c rest of
        Inl err \<Rightarrow> Inl err
      | Inr cmd \<Rightarrow> Inr (resolveValue verify cmd (e # es)))"

section \<open>Example pages, descriptors and commands\<close>

text \<open>
  Concrete data on which the properties below are instantiated: a descriptor without
  text capability and one with it, a page whose \<open>find\<close> yields two nested elements
  under each element of the subject, the same page inside a \<open>within\<close>, and an
  assertion that passes only inside the \<open>within\<close>.
\<close>

definition plainSpec :: Component where
  "plainSpec = \<lparr> query = ''input'', name = ''Input'', textQuery = None,
                  traverse = None, traverseViaText = None \<rparr>"

definition labelledSpec :: Component where
  "labelledSpec = \<lparr> query = ''input'', name = ''Input'', textQuery = Some ''label'',
                     traverse = None, traverseViaText = Some (\<lambda>n. [n + 100]) \<rparr>"

definition page0 :: env where
  "page0 = \<lparr> defaultCommandTimeout = 4000, body = [0], withinSubject = None,
              jq_find = (\<lambda>s q. if q = ''input'' then concat (map (\<lambda>n. [n + 1, n + 2]) s)
                               else []),
              contains = (\<lambda>a b. a < b),
              findAllByText = (\<lambda>s q t. if q = ''label''
                                       then concat (map (\<lambda>n. [n + 3, n + 4]) s) else []),
              orderByInnerText = (\<lambda>xs. xs) \<rparr>"

definition page1 :: env where
  "page1 = page0 \<lparr> withinSubject := Some [20] \<rparr>"

definition allOn :: jsval where
  "allOn = JObj [(''all'', JBool True)]"

definition allOff :: jsval where
  "allOff = JObj [(''all'', JBool False)]"

definition byQuery :: "jsval \<Rightarrow> command" where
  "byQuery options = \<lparr> cmd_prevSubject = None, cmd_component = plainSpec,
       cmd_options = options, cmd_text = JUndefined, cmd_logEntry = None \<rparr>"

definition byText :: "jsval \<Rightarrow> command" where
  "byText options = \<lparr> cmd_prevSubject = None, cmd_component = labelledSpec,
       cmd_options = options, cmd_text = JStr ''Name'', cmd_logEntry = None \<rparr>"

definition untilScoped :: "env \<Rightarrow> node list \<Rightarrow> jsval \<Rightarrow> verdict" where
  "untilScoped e el options = (if withinSubject e = None then Retries else Passes)"

definition loggedEntry :: "jsval \<Rightarrow> logEntry" where
  "loggedEntry options = \<lparr> log_name = ''component'',
       log_message = [JStr ''Input'', options], log_type = ''parent'',
       log_Component = ''Input'', log_Text = None, log_Options = Some options,
       log_AppliesTo = None, log_Yielded = None, log_Elements = None, log_el = None \<rparr>"


definition partialSpec :: Component where
  "partialSpec = \<lparr> query = ''input'', name = ''Select'', textQuery = None,
                    traverse = Some (\<lambda>n. if n = 1 then [] else [n + 100]),
                    traverseViaText = None \<rparr>"

definition byPartial :: "jsval \<Rightarrow> command" where
  "byPartial options = \<lparr> cmd_prevSubject = None, cmd_component = partialSpec,
       cmd_options = options, cmd_text = JUndefined, cmd_logEntry = None \<rparr>"

section \<open>Auxiliary facts\<close>

lemma getOptions_single: "getOptions [a] = (if truthy a \<and> \<not> isText a then a else JUndefined)"
  by (simp add: getOptions_def nth_arg_def)

lemma getOptions_pair: "getOptions [a, b] = b"
  by (simp add: getOptions_def nth_arg_def)

lemma getText_Cons: "getText (a # rest) = (if isText a then a else JUndefined)"
  by (simp add: getText_def nth_arg_def)

lemma locate_text:
  "textQuery (cmd_component cmd) = Some q \<Longrightarrow> truthy (cmd_text cmd) \<Longrightarrow>
   locate e s cmd = traversed (traverseViaText (cmd_component cmd))
     (reducedByText e (cmd_options cmd) (findAllByText e s q (cmd_text cmd)))"
  by (simp add: locate_def Let_def)

lemma locate_query:
  "\<not> viaText cmd \<Longrightarrow>
   locate e s cmd = traversed (traverse (cmd_component cmd))
     (reducedByQuery e (cmd_options cmd) (jq_find e s (query (cmd_component cmd))))"
  by (auto simp add: locate_def Let_def viaText_def split: option.splits)

text \<open>Attempts that end in a retry are left behind: the loop goes on with the later states.\<close>

lemma resolveValue_at:
  "k < length es \<Longrightarrow>
   \<forall>i<k. verify (es ! i) (getValue (es ! i) cmd) (cmd_options cmd) = Retries \<Longrightarrow>
   resolveValue verify cmd es = resolveValue verify cmd (drop k es)"
proof (induction es arbitrary: k)
  case Nil
  then show ?case by simp
next
  case (Cons e es)
  show ?case
  proof (cases k)
    case 0
    then show ?thesis by simp
  next
    case (Suc j)
    with Cons.prems have j: "j < length es"
      and first: "verify e (getValue e cmd) (cmd_options cmd) = Retries"
      and rest: "\<forall>i<j. verify (es ! i) (getValue (es ! i) cmd) (cmd_options cmd) = Retries"
      by auto
    from Cons.IH [OF j rest] first Suc show ?thesis by simp
  qed
qed

lemma resolveValue_head:
  "resolveValue verify cmd (e # es) =
     (case verify e (getValue e cmd) (cmd_options cmd) of
        Passes \<Rightarrow> Some (Yields (getValue e cmd) (setEl cmd (getValue e cmd)))
      | Retries \<Rightarrow> resolveValue verify cmd es
      | TimesOut \<Rightarrow> Some (Fails (getValue e cmd)))"
  by (simp add: Let_def)

text \<open>
  \<open>mapAll\<close> takes the first element of each callback result, in the order of the
  collection; when no result is empty it is a plain map.
\<close>

lemma mapAll_take: "mapAll el f = concat (map (\<lambda>x. take 1 (f x)) el)"
proof -
  have "(case f x of [] \<Rightarrow> [] | y # ys \<Rightarrow> [y]) = take 1 (f x)" for x
    by (cases "f x") simp_all
  then show ?thesis by (simp add: mapAll_def)
qed

lemma traversed_Some: "traversed (Some f) el = mapAll el f"
  by (simp add: traversed_def mapAll_def)

lemma mapAll_total: "\<forall>x\<in>set el. f x \<noteq> [] \<Longrightarrow> mapAll el f = map (\<lambda>x. hd (f x)) el"
proof (induction el)
  case Nil
  then show ?case by (simp add: mapAll_def)
next
  case (Cons x xs)
  then have "mapAll xs f = map (\<lambda>x. hd (f x)) xs" by simp
  moreover from Cons.prems have "f x \<noteq> []" by simp
  ultimately show ?case by (cases "f x") (simp_all add: mapAll_def)
qed


section \<open>Options\<close>

text \<open>
  Claim C1 says that a partial options record, such as \<open>{all: true}\<close>, is resolved to
  a record whose missing fields are filled from the defaults. On that input
  \<open>normalizeOptions\<close> returns the caller's record as it is: \<open>log\<close> and \<open>timeout\<close> read
  \<open>undefined\<close> in the result, whatever the configured timeout.
\<close>

theorem normalizeOptions_keeps_partial_record:
  "normalizeOptions e [JObj [(''all'', JBool True)]] = JObj [(''all'', JBool True)] \<and>
   getProp (normalizeOptions e [JObj [(''all'', JBool True)]]) ''log'' = JUndefined \<and>
   getProp (normalizeOptions e [JObj [(''all'', JBool True)]]) ''timeout'' = JUndefined"
  by (simp add: normalizeOptions_def getOptions_def nth_arg_def)

text \<open>
  Claim C5: of the trailing arguments, a single one that is not text-like takes the
  place of the options and no text is recognized (the options are that argument, or
  the defaults when it is falsy); of two, the second always takes the place of the
  options (again with the defaults when it is falsy); and a text is recognized only
  when the first trailing argument is text-like, and is then that argument.
\<close>

theorem trailing_arguments_resolved:
  "(\<not> isText a \<longrightarrow>
      getText [a] = JUndefined \<and>
      getOptions [a] = (if truthy a then a else JUndefined) \<and>
      normalizeOptions e [a] = (if truthy a then a else defl e)) \<and>
   getOptions [x, b] = b \<and>
   normalizeOptions e [x, b] = (if truthy b then b else defl e) \<and>
   (getText rest \<noteq> JUndefined \<longrightarrow> isText (nth_arg rest 0) \<and> getText rest = nth_arg rest 0)"
  by (simp add: getOptions_single getOptions_pair normalizeOptions_def getText_def nth_arg_def)

theorem trailing_arguments_resolved_witness:
  "\<not> isText allOn \<and> getText [allOn] = JUndefined \<and>
   normalizeOptions page0 [allOn] = allOn \<and>
   \<not> isText JNull \<and> normalizeOptions page0 [JNull] = defl page0 \<and>
   getOptions [JStr ''Name'', allOn] = allOn \<and>
   normalizeOptions page0 [JStr ''Name'', allOn] = allOn \<and>
   getText [JStr ''Name'', allOn] \<noteq> JUndefined \<and>
   isText (nth_arg [JStr ''Name'', allOn] 0)"
  using trailing_arguments_resolved [where a=allOn and e=page0 and x="JStr ''Name''"
      and b=allOn and rest="[JStr ''Name'', allOn]"]
    trailing_arguments_resolved [where a=JNull and e=page0]
  by (simp add: allOn_def getText_def nth_arg_def)

text \<open>
  Claim C9: in a call with two trailing arguments of which the first is neither a
  string nor a pattern, the first is ignored. No text is recognized, the second
  argument is the options, and the call does what it does with \<open>undefined\<close> in the
  first place; for a valid descriptor it throws nothing, takes the second argument
  (or the defaults when it is falsy) as its options, and every attempt goes the
  structural way.
\<close>

theorem non_text_first_argument_ignored:
  "\<not> isText a \<Longrightarrow>
   getText [a, b] = JUndefined \<and>
   getOptions [a, b] = b \<and>
   component e prevSubject c [a, b] = component e prevSubject c [JUndefined, b] \<and>
   (isComponent c \<longrightarrow>
      (\<exists>cmd. component e prevSubject c [a, b] = Inr cmd \<and>
         cmd_text cmd = JUndefined \<and>
         cmd_options cmd = (if truthy b then b else defl e) \<and>
         \<not> viaText cmd \<and>
         (\<forall>e'. getValue e' cmd = traversed (traverse (spec_of c))
            (reducedByQuery e' (cmd_options cmd)
               (jq_find e' (subject e' prevSubject) (query (spec_of c)))))))"
  by (simp add: getText_Cons getOptions_pair component_def Let_def normalizeOptions_def
      viaText_def getValue_def locate_query)

theorem non_text_first_argument_ignored_witness:
  "\<not> isText (JNum 5) \<and> isComponent (Spec plainSpec) \<and>
   getText [JNum 5, allOn] = JUndefined \<and>
   component page0 None (Spec plainSpec) [JNum 5, allOn] =
     Inr ((byQuery allOn) \<lparr> cmd_logEntry := Some (loggedEntry allOn) \<rparr>) \<and>
   getValue page0 ((byQuery allOn) \<lparr> cmd_logEntry := Some (loggedEntry allOn) \<rparr>) = [1, 2]"
  using non_text_first_argument_ignored [of "JNum 5" allOn page0 None "Spec plainSpec"]
  by (simp add: allOn_def byQuery_def plainSpec_def loggedEntry_def component_def Let_def
      normalizeOptions_def getOptions_def getText_def nth_arg_def appliesTo_def page0_def
      getValue_def locate_def subject_def traversed_def reducedByQuery_def reducesByQuery_def)

section \<open>Validation\<close>

text \<open>
  Claim C3, for a truthy text: when the text of the call is a non-empty string or a
  pattern and the descriptor lacks text capability, the call throws. The error is
  fixed by the descriptor alone, so it is the same on every page, whatever the
  previous subject; and the command as a whole ends with it, no attempt run.
\<close>

theorem text_without_capability_throws:
  "truthy (getText rest) \<Longrightarrow> \<not> isComponentWithText c \<Longrightarrow>
   component e prevSubject c rest =
     Inl (if isComponent c then NotComponentWithText (name (spec_of c))
          else if isReact c then CannotUseReact (render c)
          else InvalidSpecification (render c)) \<and>
   invoke verify e es prevSubject c rest =
     Inl (if isComponent c then NotComponentWithText (name (spec_of c))
          else if isReact c then CannotUseReact (render c)
          else InvalidSpecification (render c))"
  by (simp add: invoke_def component_def Let_def)

theorem text_without_capability_throws_witness:
  "truthy (getText [JStr ''Name'']) \<and> \<not> isComponentWithText (Spec plainSpec) \<and>
   component page0 None (Spec plainSpec) [JStr ''Name''] =
     Inl (NotComponentWithText ''Input'') \<and>
   invoke untilScoped page0 [page1] None (Spec plainSpec) [JStr ''Name''] =
     Inl (NotComponentWithText ''Input'')"
  using text_without_capability_throws
    [of "[JStr ''Name'']" "Spec plainSpec" page0 None untilScoped "[page1]"]
  by (simp add: getText_def nth_arg_def plainSpec_def)

text \<open>
  The empty string is a text criterion (\<open>getText\<close> returns it), yet with a descriptor
  that lacks text capability the call throws nothing: the command runs, locates by
  the structural query within the ambient scope, and yields what the assertion
  accepts.
\<close>

theorem empty_text_without_capability_passes:
  "getText [JStr []] = JStr [] \<and> \<not> isComponentWithText (Spec plainSpec) \<and>
   invoke untilScoped page1 [] None (Spec plainSpec) [JStr []] =
     Inr (Some (Yields [22]
       (Some \<lparr> log_name = ''component'', log_message = [JStr ''Input''],
          log_type = ''child'', log_Component = ''Input'', log_Text = None,
          log_Options = None, log_AppliesTo = Some [20], log_Yielded = Some [22],
          log_Elements = Some 1, log_el = Some [22] \<rparr>)))"
  by (simp add: invoke_def component_def normalizeOptions_def getOptions_def getText_def
      nth_arg_def plainSpec_def defl_def appliesTo_def page0_def page1_def untilScoped_def
      getValue_def locate_def subject_def traversed_def reducedByQuery_def reducesByQuery_def
      setEl_def Let_def)

text \<open>
  Claim C4: a call whose descriptor argument is not a valid descriptor throws at once,
  on every page and with no attempt run. The error for a framework component is
  another error, with another message, than the one for any other invalid value, and
  it is thrown only for a framework component.
\<close>

theorem react_component_error_distinct:
  "\<not> isComponent c \<Longrightarrow>
   component e prevSubject c rest =
     Inl (if isReact c then CannotUseReact (render c) else InvalidSpecification (render c)) \<and>
   invoke verify e es prevSubject c rest =
     Inl (if isReact c then CannotUseReact (render c) else InvalidSpecification (render c)) \<and>
   ((\<exists>s. component e prevSubject c rest = Inl (CannotUseReact s)) \<longleftrightarrow> isReact c) \<and>
   CannotUseReact (render c) \<noteq> InvalidSpecification (render c) \<and>
   error_message (CannotUseReact (render c)) \<noteq> error_message (InvalidSpecification (render c))"
  by (simp add: invoke_def component_def Let_def)

theorem react_component_error_distinct_witness:
  "\<not> isComponent (React ''class Input'') \<and> isReact (React ''class Input'') \<and>
   component page0 None (React ''class Input'') [] = Inl (CannotUseReact ''class Input'') \<and>
   \<not> isComponent (Malformed ''null'') \<and> \<not> isReact (Malformed ''null'') \<and>
   component page0 None (Malformed ''null'') [] = Inl (InvalidSpecification ''null'') \<and>
   invoke untilScoped page0 [] None (React ''class Input'') [] =
     Inl (CannotUseReact ''class Input'')"
  using react_component_error_distinct
      [of "React ''class Input''" page0 None "[]" untilScoped "[]"]
    react_component_error_distinct
      [of "Malformed ''null''" page0 None "[]" untilScoped "[]"]
  by simp

section \<open>Logging\<close>

text \<open>
  Claim C10, for the calls that pass the checks of the descriptor: such a call has a
  log entry exactly when the \<open>log\<close> field of its resolved options is not \<open>false\<close>.
  The resolved options are the caller's record when one is given, so a record without
  a \<open>log\<close> field still gets its entry.
\<close>

theorem logEntry_iff_log_not_false:
  "isComponent c \<Longrightarrow> \<not> (truthy (getText rest) \<and> \<not> isComponentWithText c) \<Longrightarrow>
   \<exists>cmd. component e prevSubject c rest = Inr cmd \<and>
     (cmd_logEntry cmd \<noteq> None \<longleftrightarrow> getProp (normalizeOptions e rest) ''log'' \<noteq> JBool False) \<and>
     cmd_options cmd = normalizeOptions e rest \<and>
     (truthy (getOptions rest) \<and> getProp (getOptions rest) ''log'' = JUndefined \<longrightarrow>
        cmd_options cmd = getOptions rest \<and> cmd_logEntry cmd \<noteq> None)"
  by (auto simp add: component_def Let_def normalizeOptions_def)

theorem logEntry_iff_log_not_false_witness:
  "isComponent (Spec plainSpec) \<and>
   \<not> (truthy (getText [allOn]) \<and> \<not> isComponentWithText (Spec plainSpec)) \<and>
   component page0 None (Spec plainSpec) [allOn] =
     Inr ((byQuery allOn) \<lparr> cmd_logEntry := Some (loggedEntry allOn) \<rparr>) \<and>
   getProp (getOptions [allOn]) ''log'' = JUndefined \<and>
   cmd_logEntry ((byQuery allOn) \<lparr> cmd_logEntry := Some (loggedEntry allOn) \<rparr>) \<noteq> None \<and>
   component page0 None (Spec plainSpec) [JObj [(''log'', JBool False)]] =
     Inr (byQuery (JObj [(''log'', JBool False)])) \<and>
   cmd_logEntry (byQuery (JObj [(''log'', JBool False)])) = None"
  using logEntry_iff_log_not_false [of "Spec plainSpec" "[allOn]" page0 None]
    logEntry_iff_log_not_false [of "Spec plainSpec" "[JObj [(''log'', JBool False)]]" page0 None]
  by (simp add: allOn_def byQuery_def plainSpec_def loggedEntry_def component_def Let_def
      normalizeOptions_def getOptions_def getText_def nth_arg_def appliesTo_def page0_def)

text \<open>
  A call that throws at the checks ends before the entry is made, whatever its
  options: here \<open>log\<close> is not \<open>false\<close> and the call ends with the error.
\<close>

theorem throwing_call_has_no_logEntry:
  "getProp (normalizeOptions page0 [JStr ''Name'', allOn]) ''log'' \<noteq> JBool False \<and>
   component page0 None (Spec plainSpec) [JStr ''Name'', allOn] =
     Inl (NotComponentWithText ''Input'')"
  by (simp add: allOn_def plainSpec_def component_def Let_def normalizeOptions_def
      getOptions_def getText_def nth_arg_def)


section \<open>Reduction of the candidates\<close>



text \<open>
  Claim C6, with the traversal spelled out: with \<open>options.all\<close> truthy neither path
  reduces or reorders. An attempt returns the candidates as \<open>findAllByText\<close> (text
  path) or \<open>find\<close> (structural path) gave them when the descriptor has no traversal;
  when it has one, it returns the first element of the traversal of each candidate,
  in the order of the candidates, which is one element for each candidate when no
  traversal comes out empty.
\<close>

theorem all_applies_no_reduction:
  "truthy (getProp (cmd_options cmd) ''all'') \<Longrightarrow>
   reducedByText e (cmd_options cmd) el = el \<and> reducedByQuery e (cmd_options cmd) el = el \<and>
   (\<forall>q. textQuery (cmd_component cmd) = Some q \<and> truthy (cmd_text cmd) \<longrightarrow>
      getValue e cmd =
        (case traverseViaText (cmd_component cmd) of
           None \<Rightarrow> findAllByText e (subject e (cmd_prevSubject cmd)) q (cmd_text cmd)
         | Some f \<Rightarrow> concat (map (\<lambda>x. take 1 (f x))
             (findAllByText e (subject e (cmd_prevSubject cmd)) q (cmd_text cmd))))) \<and>
   (\<not> viaText cmd \<longrightarrow>
      getValue e cmd =
        (case traverse (cmd_component cmd) of
           None \<Rightarrow> jq_find e (subject e (cmd_prevSubject cmd)) (query (cmd_component cmd))
         | Some f \<Rightarrow> concat (map (\<lambda>x. take 1 (f x))
             (jq_find e (subject e (cmd_prevSubject cmd)) (query (cmd_component cmd)))))) \<and>
   ((\<forall>x\<in>set el. f x \<noteq> []) \<longrightarrow> traversed (Some f) el = map (\<lambda>x. hd (f x)) el)"
proof -
  assume on: "truthy (getProp (cmd_options cmd) ''all'')"
  then have unreduced: "reducedByText e (cmd_options cmd) xs = xs"
    "reducedByQuery e (cmd_options cmd) xs = xs" for xs
    by (simp_all add: reducesByQuery_def reducesByText_def reducedByQuery_def
        reducedByText_def)
  have mapped: "traversed cb xs =
      (case cb of None \<Rightarrow> xs | Some f \<Rightarrow> concat (map (\<lambda>x. take 1 (f x)) xs))" for cb xs
    by (cases cb) (simp_all add: traversed_Some mapAll_take traversed_def)
  have total: "traversed (Some f) el = map (\<lambda>x. hd (f x)) el" if "\<forall>x\<in>set el. f x \<noteq> []"
    using that by (simp add: traversed_Some mapAll_total)
  show ?thesis
    using total by (simp add: unreduced getValue_def locate_text locate_query mapped)
qed

theorem all_applies_no_reduction_witness:
  "truthy (getProp (cmd_options (byQuery allOn)) ''all'') \<and>
   truthy (getProp (cmd_options (byText allOn)) ''all'') \<and>
   \<not> viaText (byQuery allOn) \<and>
   jq_find page0 (subject page0 None) ''input'' = [1, 2] \<and> contains page0 1 2 \<and>
   getValue page0 (byQuery allOn) = [1, 2] \<and>
   findAllByText page0 (subject page0 None) ''label'' (JStr ''Name'') = [3, 4] \<and>
   contains page0 3 4 \<and>
   getValue page0 (byText allOn) = [103, 104] \<and>
   [(3::node) + 100] \<noteq> [] \<and> [(4::node) + 100] \<noteq> [] \<and>
   traversed (Some (\<lambda>n. [n + 100])) [3, 4] = [103, 104]"
  using all_applies_no_reduction [where cmd="byQuery allOn" and el="[3, 4]" and e=page0 and f="\<lambda>n. [n + 100]"]
    all_applies_no_reduction [where cmd="byText allOn" and el="[3, 4]" and e=page0 and f="\<lambda>n. [n + 100]"]
  by (simp add: allOn_def byQuery_def byText_def viaText_def plainSpec_def labelledSpec_def
      page0_def subject_def)

text \<open>
  A candidate whose traversal comes out empty is left out: of the candidates \<open>1\<close>
  and \<open>2\<close> only the image of \<open>2\<close> is returned, with \<open>all\<close> set.
\<close>

theorem all_drops_candidate_without_traversal_result:
  "truthy (getProp (cmd_options (byPartial allOn)) ''all'') \<and>
   jq_find page0 (subject page0 (cmd_prevSubject (byPartial allOn))) ''input'' = [1, 2] \<and>
   getValue page0 (byPartial allOn) = [102]"
  by (simp add: allOn_def byPartial_def partialSpec_def page0_def subject_def getValue_def
      locate_def traversed_def mapAll_def reducedByQuery_def reducesByQuery_def)

section \<open>The scope of each attempt\<close>

text \<open>
  Claim C7: the scope of an attempt is the previous subject if the caller gave one,
  else the ambient scope if there is one, else the document body; and each attempt
  resolves it on the page as it is at that attempt. When the attempts before the
  \<open>k\<close>-th all end in a retry and the \<open>k\<close>-th passes or times out, what the loop
  settles with was located in the scope of the \<open>k\<close>-th state of the page.
\<close>

theorem subject_resolved_each_attempt:
  "subject e (Some s) = s \<and>
   (withinSubject e = Some w \<longrightarrow> subject e None = w) \<and>
   (withinSubject e = None \<longrightarrow> subject e None = body e) \<and>
   getValue e cmd = locate e (subject e (cmd_prevSubject cmd)) cmd \<and>
   (k < length es \<and>
    (\<forall>i<k. verify (es ! i) (getValue (es ! i) cmd) (cmd_options cmd) = Retries) \<longrightarrow>
      (verify (es ! k) (getValue (es ! k) cmd) (cmd_options cmd) = Passes \<longrightarrow>
         resolveValue verify cmd es =
           Some (Yields (locate (es ! k) (subject (es ! k) (cmd_prevSubject cmd)) cmd)
                   (setEl cmd (locate (es ! k) (subject (es ! k) (cmd_prevSubject cmd)) cmd)))) \<and>
      (verify (es ! k) (getValue (es ! k) cmd) (cmd_options cmd) = TimesOut \<longrightarrow>
         resolveValue verify cmd es =
           Some (Fails (locate (es ! k) (subject (es ! k) (cmd_prevSubject cmd)) cmd))))"
proof -
  have settle: "resolveValue verify cmd es =
      (case verify (es ! k) (getValue (es ! k) cmd) (cmd_options cmd) of
        Passes \<Rightarrow> Some (Yields (getValue (es ! k) cmd) (setEl cmd (getValue (es ! k) cmd)))
      | Retries \<Rightarrow> resolveValue verify cmd (drop (Suc k) es)
      | TimesOut \<Rightarrow> Some (Fails (getValue (es ! k) cmd)))"
    if k: "k < length es"
      and r: "\<forall>i<k. verify (es ! i) (getValue (es ! i) cmd) (cmd_options cmd) = Retries"
  proof -
    from k have d: "drop k es = es ! k # drop (Suc k) es"
      by (simp add: Cons_nth_drop_Suc)
    have "resolveValue verify cmd es = resolveValue verify cmd (drop k es)"
      using k r by (rule resolveValue_at)
    then show ?thesis
      by (simp only: d resolveValue_head)
  qed
  show ?thesis
    using settle by (auto simp add: subject_def getValue_def)
qed

theorem subject_resolved_each_attempt_witness:
  "subject page1 (Some [9]) = [9] \<and> subject page0 None = [0] \<and> subject page1 None = [20] \<and>
   1 < length [page0, page1] \<and>
   untilScoped page0 (getValue page0 (byQuery allOff)) allOff = Retries \<and>
   untilScoped page1 (getValue page1 (byQuery allOff)) allOff = Passes \<and>
   locate page1 [20] (byQuery allOff) = [22] \<and>
   resolveValue untilScoped (byQuery allOff) [page0, page1] = Some (Yields [22] None)"
  using subject_resolved_each_attempt [where e=page1 and s="[9]" and w="[20]"
      and cmd="byQuery allOff" and k=1 and es="[page0, page1]" and verify=untilScoped]
    subject_resolved_each_attempt [where e=page0 and s="[9]" and w="[20]"
      and cmd="byQuery allOff" and k=1 and es="[page0, page1]" and verify=untilScoped]
  by (simp add: allOff_def byQuery_def plainSpec_def page0_def page1_def subject_def
      untilScoped_def setEl_def locate_def traversed_def reducedByQuery_def reducesByQuery_def)

end
